theory Spec2Isabelle
  imports Complex_Main "HOL-Library.AList"
begin

section \<open>Python values read from and written to the state file\<close>

text \<open>
  \<^verbatim>\<open>json.load\<close> yields \<^verbatim>\<open>None\<close>, a \<^verbatim>\<open>bool\<close>, an \<^verbatim>\<open>int\<close>, a \<^verbatim>\<open>float\<close>, a
  \<^verbatim>\<open>str\<close>, a \<^verbatim>\<open>list\<close> or a \<^verbatim>\<open>dict\<close> with string keys. A float is a rational, an
  infinity or a NaN: only its order against an \<^verbatim>\<open>int\<close> is used by the program, and
  Python decides that order exactly. A dict keeps its keys in insertion order, so it is an
  association list.
\<close>

datatype pyfloat = Finite rat | PosInf | NegInf | NaN

datatype json =
    JNull
  | JBool bool
  | JInt int
  | JFloat pyfloat
  | JStr string
  | JArr "json list"
  | JObj "(string \<times> json) list"

datatype py_exception = TypeError | AttributeError | ValueError | OSError

text \<open>
  A run ends by \<^verbatim>\<open>sys.exit(n)\<close>, by falling off the end of \<^verbatim>\<open>main\<close> (status 0) or
  by an exception nobody catches, which the interpreter reports with a traceback and
  status 1.
\<close>

datatype status = Exit int | Crash py_exception

fun exit_code :: "status \<Rightarrow> int" where
  "exit_code (Exit n) = n"
| "exit_code (Crash e) = 1"

text \<open>\<^verbatim>\<open>x <= m\<close> and \<^verbatim>\<open>x > m\<close> for a loaded value \<^verbatim>\<open>x\<close> and an \<^verbatim>\<open>int\<close> \<^verbatim>\<open>m\<close>.
  A \<^verbatim>\<open>bool\<close> is the integer 0 or 1; \<^verbatim>\<open>None\<close>, strings, lists and dicts are not
  ordered against an \<^verbatim>\<open>int\<close> and the comparison raises \<^verbatim>\<open>TypeError\<close>.\<close>

fun float_le_int :: "pyfloat \<Rightarrow> int \<Rightarrow> bool" where
  "float_le_int (Finite q) m = (q \<le> of_int m)"
| "float_le_int PosInf m = False"
| "float_le_int NegInf m = True"
| "float_le_int NaN m = False"

fun float_gt_int :: "pyfloat \<Rightarrow> int \<Rightarrow> bool" where
  "float_gt_int (Finite q) m = (q > of_int m)"
| "float_gt_int PosInf m = True"
| "float_gt_int NegInf m = False"
| "float_gt_int NaN m = False"

fun py_le :: "json \<Rightarrow> int \<Rightarrow> py_exception + bool" where
  "py_le (JBool b) m = Inr ((if b then 1 else 0) \<le> m)"
| "py_le (JInt n) m = Inr (n \<le> m)"
| "py_le (JFloat f) m = Inr (float_le_int f m)"
| "py_le JNull m = Inl TypeError"
| "py_le (JStr s) m = Inl TypeError"
| "py_le (JArr xs) m = Inl TypeError"
| "py_le (JObj kvs) m = Inl TypeError"

fun py_gt :: "json \<Rightarrow> int \<Rightarrow> py_exception + bool" where
  "py_gt (JBool b) m = Inr ((if b then 1 else 0) > m)"
| "py_gt (JInt n) m = Inr (n > m)"
| "py_gt (JFloat f) m = Inr (float_gt_int f m)"
| "py_gt JNull m = Inl TypeError"
| "py_gt (JStr s) m = Inl TypeError"
| "py_gt (JArr xs) m = Inl TypeError"
| "py_gt (JObj kvs) m = Inl TypeError"

text \<open>\<^verbatim>\<open>state.get(k)\<close>: a dict answers \<^verbatim>\<open>None\<close> for a missing key; no other loaded
  value has a \<^verbatim>\<open>get\<close> attribute.\<close>

fun py_get :: "json \<Rightarrow> string \<Rightarrow> py_exception + json" where
  "py_get (JObj kvs) k = Inr (case map_of kvs k of None \<Rightarrow> JNull | Some v \<Rightarrow> v)"
| "py_get JNull k = Inl AttributeError"
| "py_get (JBool b) k = Inl AttributeError"
| "py_get (JInt n) k = Inl AttributeError"
| "py_get (JFloat f) k = Inl AttributeError"
| "py_get (JStr s) k = Inl AttributeError"
| "py_get (JArr xs) k = Inl AttributeError"

text \<open>\<^verbatim>\<open>state[k] = v\<close>: a dict replaces the value of an existing key in place and
  appends a new key; item assignment with a string key raises \<^verbatim>\<open>TypeError\<close> on every
  other loaded value.\<close>

fun py_setitem :: "json \<Rightarrow> string \<Rightarrow> json \<Rightarrow> py_exception + json" where
  "py_setitem (JObj kvs) k v = Inr (JObj (AList.update k v kvs))"
| "py_setitem JNull k v = Inl TypeError"
| "py_setitem (JBool b) k v = Inl TypeError"
| "py_setitem (JInt n) k v = Inl TypeError"
| "py_setitem (JFloat f) k v = Inl TypeError"
| "py_setitem (JStr s) k v = Inl TypeError"
| "py_setitem (JArr xs) k v = Inl TypeError"

text \<open>\<^verbatim>\<open>str(n)\<close> for an \<^verbatim>\<open>int\<close>, as an f-string interpolates it: decimal digits, with
  a leading minus sign for a negative number.\<close>

fun str_nat :: "nat \<Rightarrow> string" where
  "str_nat n =
     (if n < 10 then [''0123456789'' ! n]
      else str_nat (n div 10) @ [''0123456789'' ! (n mod 10)])"

definition str_int :: "int \<Rightarrow> string" where
  "str_int i = (if i < 0 then CHR ''-'' # str_nat (nat (- i)) else str_nat (nat i))"

section \<open>The world the script runs in\<close>

text \<open>
  The state file lives in a directory of files. A file has a content and the two
  permissions that \<^verbatim>\<open>open\<close> asks for; a new file can be created when the directory
  allows it. Writing to an open file can fail as well (a full device, a quota): the
  device then stores the first \<open>n\<close> characters and no more; \<open>write_limit\<close> is that
  \<open>n\<close>, or \<open>None\<close> for a device that stores all it is given.
\<close>

datatype disk_file = File (readable: bool) (writable: bool) (content: string)

record filesystem =
  files :: "string \<Rightarrow> disk_file option"
  dir_writable :: bool
  write_limit :: "nat option"

text \<open>The form posted to the Pushover endpoint, and how the request can end:
  \<^verbatim>\<open>raise_for_status\<close> raises \<^verbatim>\<open>HTTPError\<close> on an error response, and the transport
  raises the other three.\<close>

record form =
  token :: "string option"
  user :: "string option"
  title :: string
  message :: string

datatype post_outcome = Delivered | HTTPError | ConnectionError | Timeout | RequestException

text \<open>\<^verbatim>\<open>device.connect\<close> either returns, after which the sensor values can be read, or
  raises one of the four libdyson exceptions or some other exception. Only the humidity,
  an \<^verbatim>\<open>int\<close>, takes part in a decision; the other readings are logged.\<close>

datatype dyson_exception =
    DysonInvalidCredential
  | DysonConnectionRefused
  | DysonConnectTimeout
  | DysonNotConnected
  | OtherException

record device =
  humidity :: int

text \<open>
  Everything a run depends on: the namespace that \<^verbatim>\<open>parse_args\<close> returned (the run
  starts there; a command line that argparse itself rejects never reaches the code
  below), the environment after \<^verbatim>\<open>load_dotenv\<close>, what the device answers, the
  directory of the state file, what the Pushover endpoint answers to a form, and the two
  functions of the \<^verbatim>\<open>json\<close> module (\<^verbatim>\<open>json_loads\<close> answers \<open>None\<close> where
  \<^verbatim>\<open>json.load\<close> raises on text that is no JSON document).
\<close>

record world =
  max_humidity :: "int option"
  environ :: "string \<Rightarrow> string option"
  device_connect :: "dyson_exception + device"
  disk :: filesystem
  post :: "form \<Rightarrow> post_outcome"
  json_dumps :: "json \<Rightarrow> string"
  json_loads :: "string \<Rightarrow> json option"

text \<open>What a run does to the outside, in order.\<close>

datatype event =
    EvConnect
  | EvLoadState
  | EvNotify form post_outcome
  | EvSaveState json

record outcome =
  status :: status
  disk_after :: filesystem
  trace :: "event list"

section \<open>The script\<close>

definition STATE_FILE :: string where
  "STATE_FILE = ''state.json''"

text \<open>The body of the \<^verbatim>\<open>with\<close> block of \<^verbatim>\<open>save_state\<close>, on a file that
  \<^verbatim>\<open>open\<close> has just emptied or created with permissions \<open>r\<close> and \<open>wr\<close>:
  \<^verbatim>\<open>json.dump\<close> writes the text, and the block closes the file. When the device
  cannot store the whole text, the file keeps the part that was stored (nothing at all,
  when the limit is 0) and \<^verbatim>\<open>OSError\<close> is raised.\<close>

definition write_file ::
  "filesystem \<Rightarrow> bool \<Rightarrow> bool \<Rightarrow> string \<Rightarrow> (py_exception + unit) \<times> filesystem" where
  "write_file fs r wr t =
     (case write_limit fs of
        None \<Rightarrow> (Inr (), fs\<lparr>files := (files fs)(STATE_FILE \<mapsto> File r wr t)\<rparr>)
      | Some n \<Rightarrow>
          if length t \<le> n
          then (Inr (), fs\<lparr>files := (files fs)(STATE_FILE \<mapsto> File r wr t)\<rparr>)
          else (Inl OSError, fs\<lparr>files := (files fs)(STATE_FILE \<mapsto> File r wr (take n t))\<rparr>))"

text \<open>\<^verbatim>\<open>save_state\<close>: \<^verbatim>\<open>open(STATE_FILE, 'w')\<close> raises when the file may not be
  written or created, and leaves the directory as it is; otherwise it empties the file
  or creates it, and the text of the dict is written. The result is the exception, if
  any, and the directory afterwards.\<close>

definition save_state ::
  "(json \<Rightarrow> string) \<Rightarrow> json \<Rightarrow> filesystem \<Rightarrow> (py_exception + unit) \<times> filesystem" where
  "save_state dumps state fs =
     (case files fs STATE_FILE of
        None \<Rightarrow>
          if dir_writable fs
          then write_file fs True True (dumps state)
          else (Inl OSError, fs)
      | Some f \<Rightarrow>
          if writable f
          then write_file fs (readable f) (writable f) (dumps state)
          else (Inl OSError, fs))"

text \<open>\<^verbatim>\<open>load_state\<close>: only \<^verbatim>\<open>FileNotFoundError\<close> is caught and answered with the
  empty dict; a file that cannot be opened and a text that cannot be decoded raise.\<close>

definition load_state :: "(string \<Rightarrow> json option) \<Rightarrow> filesystem \<Rightarrow> py_exception + json" where
  "load_state loads fs =
     (case files fs STATE_FILE of
        None \<Rightarrow> Inr (JObj [])
      | Some f \<Rightarrow>
          if readable f
          then (case loads (content f) of None \<Rightarrow> Inl ValueError | Some v \<Rightarrow> Inr v)
          else Inl OSError)"

text \<open>\<^verbatim>\<open>send_pushover_alert\<close>: one POST; each of the four handlers ends the process
  with \<^verbatim>\<open>sys.exit(1)\<close>.\<close>

definition pushover_form :: "world \<Rightarrow> string \<Rightarrow> string \<Rightarrow> form" where
  "pushover_form w t m =
     \<lparr>token = environ w ''PUSHOVER_APP_TOKEN'',
      user = environ w ''PUSHOVER_USER_TOKEN'',
      title = t, message = m\<rparr>"

definition send_pushover_alert ::
  "world \<Rightarrow> string \<Rightarrow> string \<Rightarrow> event list \<Rightarrow> (status + unit) \<times> event list" where
  "send_pushover_alert w t m tr =
     (let f = pushover_form w t m;
          tr' = tr @ [EvNotify f (post w f)]
      in case post w f of
           Delivered \<Rightarrow> (Inr (), tr')
         | HTTPError \<Rightarrow> (Inl (Exit 1), tr')
         | ConnectionError \<Rightarrow> (Inl (Exit 1), tr')
         | Timeout \<Rightarrow> (Inl (Exit 1), tr')
         | RequestException \<Rightarrow> (Inl (Exit 1), tr'))"

text \<open>\<^verbatim>\<open>not os.environ.get(k)\<close>: true for a variable that is unset and for one that
  is set to the empty string.\<close>

definition not_set :: "world \<Rightarrow> string \<Rightarrow> bool" where
  "not_set w k = (case environ w k of None \<Rightarrow> True | Some v \<Rightarrow> v = [])"

text \<open>Lines 76 to 90 of \<^verbatim>\<open>main\<close>: the threshold, then the six variables. The
  result is the status the process exits with, if it does.\<close>

definition main_config :: "world \<Rightarrow> status option" where
  "main_config w =
     (if max_humidity w = None then Some (Exit 1)
      else if not_set w ''DYSON_SERIAL'' \<or>
              not_set w ''DYSON_CREDENTIAL'' \<or>
              not_set w ''DYSON_DEVICE_TYPE'' \<or>
              not_set w ''DYSON_HOST'' \<or>
              not_set w ''PUSHOVER_APP_TOKEN'' \<or>
              not_set w ''PUSHOVER_USER_TOKEN''
      then Some (Exit 1)
      else None)"

text \<open>Lines 129 to 133: the alert for a reading at or above the threshold. The test
  \<^verbatim>\<open>last_humidity is None or last_humidity <= args.max_humidity\<close> compares only when
  the first operand is false.\<close>

definition alert_above ::
  "world \<Rightarrow> int \<Rightarrow> json \<Rightarrow> int \<Rightarrow> event list \<Rightarrow> (status + unit) \<times> event list" where
  "alert_above w h last_humidity mx tr =
     (if h \<ge> mx then
        (if last_humidity = JNull
         then send_pushover_alert w ''Rel. humidity above threshold''
                (''Humidity is: '' @ str_int h @ ''%'') tr
         else (case py_le last_humidity mx of
                 Inl e \<Rightarrow> (Inl (Crash e), tr)
               | Inr b \<Rightarrow>
                   if b
                   then send_pushover_alert w ''Rel. humidity above threshold''
                          (''Humidity is: '' @ str_int h @ ''%'') tr
                   else (Inr (), tr)))
      else (Inr (), tr))"

text \<open>Lines 136 to 139: the alert for a reading that has come back under the
  threshold. The test
  \<^verbatim>\<open>device.humidity < args.max_humidity and last_humidity > args.max_humidity\<close>
  evaluates its second operand whenever the first is true, whatever
  \<^verbatim>\<open>last_humidity\<close> is.\<close>

definition alert_ok ::
  "world \<Rightarrow> int \<Rightarrow> json \<Rightarrow> int \<Rightarrow> event list \<Rightarrow> (status + unit) \<times> event list" where
  "alert_ok w h last_humidity mx tr =
     (if h < mx then
        (case py_gt last_humidity mx of
           Inl e \<Rightarrow> (Inl (Crash e), tr)
         | Inr b \<Rightarrow>
             if b
             then send_pushover_alert w ''Rel. humidity OK''
                    (''Humidity returned to OK value ('' @ str_int h @ ''%)'') tr
             else (Inr (), tr))
      else (Inr (), tr))"

text \<open>Lines 128 to 139: both tests, one after the other, under
  \<^verbatim>\<open>if args.max_humidity is not None\<close>.\<close>

definition main_alerts ::
  "world \<Rightarrow> int \<Rightarrow> json \<Rightarrow> int option \<Rightarrow> event list \<Rightarrow> (status + unit) \<times> event list" where
  "main_alerts w h last_humidity mxo tr =
     (case mxo of
        None \<Rightarrow> (Inr (), tr)
      | Some mx \<Rightarrow>
          (case alert_above w h last_humidity mx tr of
             (Inl s, tr') \<Rightarrow> (Inl s, tr')
           | (Inr u, tr') \<Rightarrow> alert_ok w h last_humidity mx tr'))"

text \<open>Lines 141 and 142: the reading goes into the loaded dict, which is saved.\<close>

definition main_persist :: "world \<Rightarrow> json \<Rightarrow> int \<Rightarrow> event list \<Rightarrow> outcome" where
  "main_persist w state h tr =
     (case py_setitem state ''last_humidity'' (JInt h) of
        Inl e \<Rightarrow> \<lparr>status = Crash e, disk_after = disk w, trace = tr\<rparr>
      | Inr state' \<Rightarrow>
          (case save_state (json_dumps w) state' (disk w) of
             (Inl e, fs') \<Rightarrow>
               \<lparr>status = Crash e, disk_after = fs', trace = tr @ [EvSaveState state']\<rparr>
           | (Inr u, fs') \<Rightarrow>
               \<lparr>status = Exit 0, disk_after = fs', trace = tr @ [EvSaveState state']\<rparr>))"

text \<open>\<^verbatim>\<open>main\<close>: configuration, connection, previous state, alerts, new state. The
  humidity is the same at each place that reads it; the logging calls decide nothing and
  are left out.\<close>

definition main :: "world \<Rightarrow> outcome" where
  "main w =
     (case main_config w of
        Some s \<Rightarrow> \<lparr>status = s, disk_after = disk w, trace = []\<rparr>
      | None \<Rightarrow>
          (case device_connect w of
             Inl e \<Rightarrow> \<lparr>status = Exit 1, disk_after = disk w, trace = [EvConnect]\<rparr>
           | Inr dev \<Rightarrow>
               (case load_state (json_loads w) (disk w) of
                  Inl e \<Rightarrow>
                    \<lparr>status = Crash e, disk_after = disk w, trace = [EvConnect, EvLoadState]\<rparr>
                | Inr state \<Rightarrow>
                    (case py_get state ''last_humidity'' of
                       Inl e \<Rightarrow>
                         \<lparr>status = Crash e, disk_after = disk w,
                          trace = [EvConnect, EvLoadState]\<rparr>
                     | Inr last_humidity \<Rightarrow>
                         (case main_alerts w (humidity dev) last_humidity (max_humidity w)
                                 [EvConnect, EvLoadState] of
                            (Inl s, tr) \<Rightarrow> \<lparr>status = s, disk_after = disk w, trace = tr\<rparr>
                          | (Inr u, tr) \<Rightarrow> main_persist w state (humidity dev) tr)))))"

text \<open>The forms a trace posted, in order, and whether an alert with a given title
  was among them (the alert fired).\<close>

fun sent :: "event list \<Rightarrow> form list" where
  "sent [] = []"
| "sent (EvNotify f r # evs) = f # sent evs"
| "sent (EvConnect # evs) = sent evs"
| "sent (EvLoadState # evs) = sent evs"
| "sent (EvSaveState s # evs) = sent evs"

definition fired :: "string \<Rightarrow> event list \<Rightarrow> bool" where
  "fired t tr = (t \<in> set (map title (sent tr)))"

text \<open>The six variables that the message of lines 87 to 89 names.\<close>

definition required_variables :: "string list" where
  "required_variables =
     [''DYSON_SERIAL'', ''DYSON_CREDENTIAL'', ''DYSON_DEVICE_TYPE'', ''DYSON_HOST'',
      ''PUSHOVER_APP_TOKEN'', ''PUSHOVER_USER_TOKEN'']"

text \<open>A run reaches the alert tests of lines 128 to 139 with reading \<open>h\<close>, loaded
  state \<open>st\<close>, previous reading \<open>prev\<close> and threshold \<open>mx\<close>: the configuration
  is complete, the device answered, and the state file was loaded and asked for
  \<^verbatim>\<open>last_humidity\<close>.\<close>

definition reaches_alerts :: "world \<Rightarrow> int \<Rightarrow> json \<Rightarrow> json \<Rightarrow> int \<Rightarrow> bool" where
  "reaches_alerts w h st prev mx =
     (main_config w = None \<and> max_humidity w = Some mx \<and>
      device_connect w = Inr \<lparr>humidity = h\<rparr> \<and>
      load_state (json_loads w) (disk w) = Inr st \<and>
      py_get st ''last_humidity'' = Inr prev)"

text \<open>A loaded value that is a Python number.\<close>

fun numeric :: "json \<Rightarrow> bool" where
  "numeric (JBool b) = True"
| "numeric (JInt n) = True"
| "numeric (JFloat f) = True"
| "numeric JNull = False"
| "numeric (JStr s) = False"
| "numeric (JArr xs) = False"
| "numeric (JObj kvs) = False"

section \<open>Concrete runs\<close>

text \<open>A complete environment, the text \<^verbatim>\<open>json.dump\<close> writes for the dict that holds
  one reading, and what the two \<^verbatim>\<open>json\<close> functions answer on the dicts and texts of
  the runs below.\<close>

definition example_environ :: "string \<Rightarrow> string option" where
  "example_environ =
     map_of [(''DYSON_SERIAL'', ''A1B-EU-ABC1234D''), (''DYSON_CREDENTIAL'', ''secret''),
             (''DYSON_DEVICE_TYPE'', ''438''), (''DYSON_HOST'', ''192.168.1.20''),
             (''PUSHOVER_APP_TOKEN'', ''app''), (''PUSHOVER_USER_TOKEN'', ''usr'')]"

definition example_state :: "int \<Rightarrow> json" where
  "example_state n = JObj [(''last_humidity'', JInt n)]"

definition example_text :: "int \<Rightarrow> string" where
  "example_text n =
     ''{'' @ [CHR 0x22] @ ''last_humidity'' @ [CHR 0x22] @ '': '' @ str_int n @ ''}''"

definition example_dumps :: "json \<Rightarrow> string" where
  "example_dumps v =
     (case v of
        JObj [(k, JInt n)] \<Rightarrow> (if k = ''last_humidity'' then example_text n else ''{}'')
      | _ \<Rightarrow> ''{}'')"

definition example_loads :: "string \<Rightarrow> json option" where
  "example_loads s =
     (if s = ''{}'' then Some (JObj [])
      else if s = example_text 55 then Some (example_state 55)
      else if s = example_text 65 then Some (example_state 65)
      else if s = example_text 70 then Some (example_state 70)
      else None)"

text \<open>A run with threshold \<open>mxo\<close> and reading \<open>h\<close>, in a directory where the state
  file is \<open>f\<close> and every write is stored, with an endpoint that answers every form
  with \<open>r\<close>.\<close>

definition example_disk :: "disk_file option \<Rightarrow> filesystem" where
  "example_disk f =
     \<lparr>files = (\<lambda>p. if p = STATE_FILE then f else None), dir_writable = True,
      write_limit = None\<rparr>"

definition example_world ::
  "int option \<Rightarrow> int \<Rightarrow> disk_file option \<Rightarrow> post_outcome \<Rightarrow> world" where
  "example_world mxo h f r =
     \<lparr>max_humidity = mxo, environ = example_environ,
      device_connect = Inr \<lparr>humidity = h\<rparr>,
      disk = example_disk f,
      post = (\<lambda>f. r), json_dumps = example_dumps, json_loads = example_loads\<rparr>"

text \<open>The run with threshold 60 and reading 65 in a fresh directory, with an endpoint
  that accepts, on a device that stores nothing of what is written.\<close>

definition example_full_world :: world where
  "example_full_world =
     (example_world (Some 60) 65 None Delivered)
       \<lparr>disk := (example_disk None)\<lparr>write_limit := Some 0\<rparr>\<rparr>"

section \<open>How a run unfolds\<close>

lemma sent_append: "sent (xs @ ys) = sent xs @ sent ys"
  by (induction xs rule: sent.induct) simp_all

lemma send_pushover_alert_eq:
  "send_pushover_alert w t m tr =
     (if post w (pushover_form w t m) = Delivered then Inr () else Inl (Exit 1),
      tr @ [EvNotify (pushover_form w t m) (post w (pushover_form w t m))])"
  by (simp add: send_pushover_alert_def Let_def split: post_outcome.splits)

lemma py_gt_not_le: "py_gt prev mx = Inr True \<Longrightarrow> py_le prev mx = Inr False"
proof (cases prev)
  case (JFloat f)
  assume "py_gt prev mx = Inr True"
  with JFloat show ?thesis by (cases f) auto
qed (auto split: if_splits)

lemma main_alerts_above:
  assumes "mx \<le> h" and "prev = JNull \<or> py_le prev mx = Inr True"
  shows "main_alerts w h prev (Some mx) tr =
           send_pushover_alert w ''Rel. humidity above threshold''
             (''Humidity is: '' @ str_int h @ ''%'') tr"
  using assms
  by (auto simp: main_alerts_def alert_above_def alert_ok_def send_pushover_alert_eq)

lemma main_alerts_ok:
  assumes "h < mx" and "py_gt prev mx = Inr True"
  shows "main_alerts w h prev (Some mx) tr =
           send_pushover_alert w ''Rel. humidity OK''
             (''Humidity returned to OK value ('' @ str_int h @ ''%)'') tr"
  using assms by (simp add: main_alerts_def alert_above_def alert_ok_def)

lemma main_alerts_still_above:
  assumes "mx \<le> h" and "py_le prev mx = Inr False"
  shows "main_alerts w h prev (Some mx) tr = (Inr (), tr)"
  using assms by (auto simp: main_alerts_def alert_above_def alert_ok_def)

lemma main_alerts_above_raises:
  assumes "mx \<le> h" and "prev \<noteq> JNull" and "py_le prev mx = Inl e"
  shows "main_alerts w h prev (Some mx) tr = (Inl (Crash e), tr)"
  using assms by (auto simp: main_alerts_def alert_above_def alert_ok_def)

lemma main_alerts_still_ok:
  assumes "h < mx" and "py_gt prev mx = Inr False"
  shows "main_alerts w h prev (Some mx) tr = (Inr (), tr)"
  using assms by (auto simp: main_alerts_def alert_above_def alert_ok_def)

lemma main_alerts_ok_raises:
  assumes "h < mx" and "py_gt prev mx = Inl e"
  shows "main_alerts w h prev (Some mx) tr = (Inl (Crash e), tr)"
  using assms by (auto simp: main_alerts_def alert_above_def alert_ok_def)

lemma main_alerts_shape:
  "(\<exists>r. main_alerts w h prev mxo tr = (r, tr) \<and> (r = Inr () \<or> (\<exists>e. r = Inl (Crash e)))) \<or>
   (\<exists>f. main_alerts w h prev mxo tr =
          (if post w f = Delivered then Inr () else Inl (Exit 1), tr @ [EvNotify f (post w f)]))"
proof (cases mxo)
  case None
  then show ?thesis by (simp add: main_alerts_def)
next
  case (Some mx)
  show ?thesis
  proof (cases "mx \<le> h")
    case True
    show ?thesis
    proof (cases "prev = JNull")
      case True
      with \<open>mx \<le> h\<close> Some show ?thesis
        using main_alerts_above [of mx h prev w tr] by (auto simp: send_pushover_alert_eq)
    next
      case False
      show ?thesis
      proof (cases "py_le prev mx")
        case (Inl e)
        with False \<open>mx \<le> h\<close> Some show ?thesis
          by (simp add: main_alerts_above_raises)
      next
        case (Inr b)
        with \<open>mx \<le> h\<close> Some show ?thesis
          using main_alerts_above [of mx h prev w tr] main_alerts_still_above [of mx h prev w tr]
          by (cases b) (auto simp: send_pushover_alert_eq)
      qed
    qed
  next
    case False
    then have lt: "h < mx" by simp
    show ?thesis
    proof (cases "py_gt prev mx")
      case (Inl e)
      with lt Some show ?thesis by (simp add: main_alerts_ok_raises)
    next
      case (Inr b)
      with lt Some show ?thesis
        using main_alerts_ok [of h mx prev w tr] main_alerts_still_ok [of h mx prev w tr]
        by (cases b) (auto simp: send_pushover_alert_eq)
    qed
  qed
qed

lemma main_at_alerts:
  assumes "reaches_alerts w h st prev mx"
  shows "main w =
         (case main_alerts w h prev (Some mx) [EvConnect, EvLoadState] of
            (Inl s, tr) \<Rightarrow> \<lparr>status = s, disk_after = disk w, trace = tr\<rparr>
          | (Inr u, tr) \<Rightarrow> main_persist w st h tr)"
  using assms by (simp add: reaches_alerts_def main_def split: prod.split sum.split)

lemma main_persist_sent: "sent (trace (main_persist w st h tr)) = sent tr"
  by (auto simp: main_persist_def sent_append split: sum.splits prod.splits)


lemma main_sent_at_alerts:
  assumes "reaches_alerts w h st prev mx"
  shows "sent (trace (main w)) = sent (snd (main_alerts w h prev (Some mx) [EvConnect, EvLoadState]))"
  using assms by (auto simp: main_at_alerts main_persist_sent split: prod.splits sum.splits)

lemma main_persist_outcomes:
  assumes "py_get st ''last_humidity'' = Inr prev"
  shows "\<exists>kvs s fs'. py_setitem st ''last_humidity'' (JInt h) = Inr (JObj kvs) \<and>
           py_get (JObj kvs) ''last_humidity'' = Inr (JInt h) \<and>
           save_state (json_dumps w) (JObj kvs) (disk w) = (s, fs') \<and>
           main_persist w st h tr =
             \<lparr>status = (case s of Inl e \<Rightarrow> Crash e | Inr u \<Rightarrow> Exit 0), disk_after = fs',
              trace = tr @ [EvSaveState (JObj kvs)]\<rparr>"
proof (cases st)
  case (JObj kvs)
  obtain s fs' where sv:
    "save_state (json_dumps w) (JObj (AList.update ''last_humidity'' (JInt h) kvs)) (disk w) = (s, fs')"
    by (cases "save_state (json_dumps w) (JObj (AList.update ''last_humidity'' (JInt h) kvs)) (disk w)")
  have "map_of (AList.update ''last_humidity'' (JInt h) kvs) ''last_humidity'' = Some (JInt h)"
    by (simp add: update_conv')
  with JObj sv show ?thesis
    by (cases s) (simp_all add: main_persist_def)
qed (use assms in simp_all)

lemma save_state_fails:
  assumes "save_state dumps r fs = (Inl e, fs')"
  shows "e = OSError \<and>
         (fs' = fs \<or>
          (\<exists>f n. files fs' STATE_FILE = Some f \<and> content f = take n (dumps r) \<and>
                 n < length (dumps r)))"
proof -
  have w: "e = OSError \<and>
         (\<exists>f n. files fs' STATE_FILE = Some f \<and> content f = take n t \<and> n < length t)"
    if "write_file fs rd wr t = (Inl e, fs')" for rd wr t
  proof (cases "write_limit fs")
    case None
    with that show ?thesis by (simp add: write_file_def)
  next
    case (Some n)
    with that have "n < length t" "e = OSError"
      "files fs' STATE_FILE = Some (File rd wr (take n t))"
      by (auto simp: write_file_def split: if_splits)
    then show ?thesis by auto
  qed
  show ?thesis
  proof (cases "files fs STATE_FILE")
    case None
    with assms w [of True True "dumps r"] show ?thesis
      by (auto simp: save_state_def split: if_splits)
  next
    case (Some f)
    with assms w [of "readable f" "writable f" "dumps r"] show ?thesis
      by (auto simp: save_state_def split: if_splits)
  qed
qed

lemma save_state_succeeds:
  "save_state dumps r fs = (Inr u, fs') \<Longrightarrow>
     \<exists>f. files fs' STATE_FILE = Some f \<and> content f = dumps r"
  by (auto simp: save_state_def write_file_def split: option.splits if_splits)

lemma main_persist_end:
  assumes "py_get st ''last_humidity'' = Inr prev"
  shows "\<exists>st'. last (trace (main_persist w st h tr)) = EvSaveState st' \<and>
           py_get st' ''last_humidity'' = Inr (JInt h) \<and>
           ((status (main_persist w st h tr) = Exit 0 \<and>
             (\<exists>f. files (disk_after (main_persist w st h tr)) STATE_FILE = Some f \<and>
                  content f = json_dumps w st')) \<or>
            (status (main_persist w st h tr) = Crash OSError \<and>
             (disk_after (main_persist w st h tr) = disk w \<or>
              (\<exists>f n. files (disk_after (main_persist w st h tr)) STATE_FILE = Some f \<and>
                     content f = take n (json_dumps w st') \<and>
                     n < length (json_dumps w st')))))"
proof -
  from main_persist_outcomes [OF assms, of h w tr] obtain kvs s fs' where
    g: "py_get (JObj kvs) ''last_humidity'' = Inr (JInt h)" and
    sv: "save_state (json_dumps w) (JObj kvs) (disk w) = (s, fs')" and
    m: "main_persist w st h tr =
           \<lparr>status = (case s of Inl e \<Rightarrow> Crash e | Inr u \<Rightarrow> Exit 0), disk_after = fs',
            trace = tr @ [EvSaveState (JObj kvs)]\<rparr>"
    by blast
  show ?thesis
  proof (cases s)
    case (Inl e)
    with sv have "e = OSError \<and>
         (fs' = disk w \<or>
          (\<exists>f n. files fs' STATE_FILE = Some f \<and> content f = take n (json_dumps w (JObj kvs)) \<and>
                 n < length (json_dumps w (JObj kvs))))"
      using save_state_fails [of "json_dumps w" "JObj kvs" "disk w" e fs'] by simp
    with Inl m g show ?thesis by auto
  next
    case (Inr u)
    with sv have "\<exists>f. files fs' STATE_FILE = Some f \<and> content f = json_dumps w (JObj kvs)"
      by (simp add: save_state_succeeds)
    with Inr m g show ?thesis by auto
  qed
qed

lemma main_outcomes:
  "main w = \<lparr>status = Exit 1, disk_after = disk w, trace = []\<rparr> \<or>
   main w = \<lparr>status = Exit 1, disk_after = disk w, trace = [EvConnect]\<rparr> \<or>
   (\<exists>e. main w = \<lparr>status = Crash e, disk_after = disk w, trace = [EvConnect, EvLoadState]\<rparr>) \<or>
   (\<exists>h st prev mx. reaches_alerts w h st prev mx \<and>
      ((\<exists>f. post w f \<noteq> Delivered \<and>
            main w = \<lparr>status = Exit 1, disk_after = disk w,
                      trace = [EvConnect, EvLoadState, EvNotify f (post w f)]\<rparr>) \<or>
       main w = main_persist w st h [EvConnect, EvLoadState] \<or>
       (\<exists>f. main w = main_persist w st h [EvConnect, EvLoadState, EvNotify f Delivered])))"
proof (cases "main_config w")
  case (Some s)
  then have "s = Exit 1"
    by (simp add: main_config_def split: if_splits)
  with Some show ?thesis by (simp add: main_def)
next
  case None
  note cfg = this
  show ?thesis
  proof (cases "device_connect w")
    case (Inl e)
    with cfg show ?thesis by (simp add: main_def)
  next
    case (Inr dev)
    note dv = this
    show ?thesis
    proof (cases "load_state (json_loads w) (disk w)")
      case (Inl e)
      with cfg dv show ?thesis by (simp add: main_def)
    next
      case (Inr st)
      note ld = this
      show ?thesis
      proof (cases "py_get st ''last_humidity''")
        case (Inl e)
        with cfg dv ld show ?thesis by (simp add: main_def)
      next
        case (Inr prev)
        from cfg obtain mx where mx: "max_humidity w = Some mx"
          by (auto simp: main_config_def split: if_splits)
        have r: "reaches_alerts w (humidity dev) st prev mx"
          using cfg dv ld Inr mx by (simp add: reaches_alerts_def)
        note m = main_at_alerts [OF r]
        from main_alerts_shape [of w "humidity dev" prev "Some mx" "[EvConnect, EvLoadState]"]
        have "(\<exists>f. post w f \<noteq> Delivered \<and>
            main w = \<lparr>status = Exit 1, disk_after = disk w,
                      trace = [EvConnect, EvLoadState, EvNotify f (post w f)]\<rparr>) \<or>
          (\<exists>e. main w = \<lparr>status = Crash e, disk_after = disk w, trace = [EvConnect, EvLoadState]\<rparr>) \<or>
          main w = main_persist w st (humidity dev) [EvConnect, EvLoadState] \<or>
          (\<exists>f. main w = main_persist w st (humidity dev) [EvConnect, EvLoadState, EvNotify f Delivered])"
        proof (elim disjE exE conjE)
          fix r assume "main_alerts w (humidity dev) prev (Some mx) [EvConnect, EvLoadState] =
              (r, [EvConnect, EvLoadState])" "r = Inr ()"
          then show ?thesis by (simp add: m)
        next
          fix r e assume "main_alerts w (humidity dev) prev (Some mx) [EvConnect, EvLoadState] =
              (r, [EvConnect, EvLoadState])" "r = Inl (Crash e)"
          then show ?thesis by (simp add: m)
        next
          fix f assume a: "main_alerts w (humidity dev) prev (Some mx) [EvConnect, EvLoadState] =
              (if post w f = Delivered then Inr () else Inl (Exit 1),
               [EvConnect, EvLoadState] @ [EvNotify f (post w f)])"
          show ?thesis
          proof (cases "post w f = Delivered")
            case True
            with a have "main w = main_persist w st (humidity dev) [EvConnect, EvLoadState, EvNotify f Delivered]"
              by (simp add: m)
            then show ?thesis by blast
          next
            case False
            with a have "main w = \<lparr>status = Exit 1, disk_after = disk w,
                      trace = [EvConnect, EvLoadState, EvNotify f (post w f)]\<rparr>"
              by (simp add: m)
            with False show ?thesis by blast
          qed
        qed
        with r show ?thesis by blast
      qed
    qed
  qed
qed

lemma example_reaches_alerts:
  "reaches_alerts (example_world (Some mx) h None r) h (JObj []) JNull mx"
  "n \<in> {55, 65, 70} \<Longrightarrow>
   reaches_alerts (example_world (Some mx) h (Some (File True True (example_text n))) r)
     h (example_state n) (JInt n) mx"
  by (auto simp: reaches_alerts_def example_world_def example_disk_def main_config_def
      not_set_def example_environ_def load_state_def example_loads_def example_state_def
      example_text_def str_int_def)

lemma main_sent_cases:
  "sent (trace (main w)) = [] \<or> (\<exists>f. sent (trace (main w)) = [f])"
  using main_outcomes [of w]
  by (elim disjE exE conjE) (auto simp: main_persist_sent)

lemma main_alerts_sent_cases:
  "sent (snd (main_alerts w h prev mxo [])) = [] \<or>
   (\<exists>f. sent (snd (main_alerts w h prev mxo [])) = [f])"
  using main_alerts_shape [of w h prev mxo "[]"] by auto

lemma example_main_above:
  "main (example_world (Some 60) 65 None r) =
     (if r = Delivered
      then main_persist (example_world (Some 60) 65 None r) (JObj []) 65
             [EvConnect, EvLoadState,
              EvNotify (pushover_form (example_world (Some 60) 65 None r)
                          ''Rel. humidity above threshold'' ''Humidity is: 65%'') r]
      else \<lparr>status = Exit 1, disk_after = example_disk None,
            trace = [EvConnect, EvLoadState,
              EvNotify (pushover_form (example_world (Some 60) 65 None r)
                          ''Rel. humidity above threshold'' ''Humidity is: 65%'') r]\<rparr>)"
proof -
  have p: "post (example_world (Some 60) 65 None r) f = r" for f
    by (simp add: example_world_def)
  have d: "disk (example_world (Some 60) 65 None r) = example_disk None"
    by (simp add: example_world_def)
  show ?thesis
    by (simp add: main_at_alerts [OF example_reaches_alerts(1)] main_alerts_above
        send_pushover_alert_eq p d str_int_def)
qed

lemma main_load_fails:
  assumes "main_config w = None" and "device_connect w = Inr dev"
    and "load_state (json_loads w) (disk w) = Inl e"
  shows "main w = \<lparr>status = Crash e, disk_after = disk w, trace = [EvConnect, EvLoadState]\<rparr>"
  using assms by (simp add: main_def)

lemma main_config_fails:
  assumes "max_humidity w = None \<or> (\<exists>k \<in> set required_variables. not_set w k)"
  shows "main w = \<lparr>status = Exit 1, disk_after = disk w, trace = []\<rparr>"
proof -
  from assms have "main_config w = Some (Exit 1)"
    by (auto simp: main_config_def required_variables_def)
  then show ?thesis by (simp add: main_def)
qed

lemma example_config: "main_config (example_world (Some mx) h f r) = None"
  by (simp add: main_config_def example_world_def not_set_def example_environ_def)

section \<open>The alert for a reading at or above the threshold\<close>

text \<open>
  C1. In a run that reaches the alert tests with a previous reading that is absent or a
  number, the alert titled "Rel. humidity above threshold" fires if and only if the
  current humidity is at least the threshold and the previous reading is absent or at
  most the threshold. In particular it does not fire when the current humidity is at
  least the threshold and the previous reading is above it.
\<close>

theorem rising_edge_alert_iff:
  assumes "reaches_alerts w h st prev mx" and "prev = JNull \<or> numeric prev"
  shows "(fired ''Rel. humidity above threshold'' (trace (main w)) \<longleftrightarrow>
            mx \<le> h \<and> (prev = JNull \<or> py_le prev mx = Inr True)) \<and>
         (mx \<le> h \<and> py_gt prev mx = Inr True \<longrightarrow>
            \<not> fired ''Rel. humidity above threshold'' (trace (main w)))"
proof -
  let ?tr = "snd (main_alerts w h prev (Some mx) [EvConnect, EvLoadState])"
  have s: "sent (trace (main w)) = sent ?tr"
    using assms(1) by (rule main_sent_at_alerts)
  have iff: "fired ''Rel. humidity above threshold'' (trace (main w)) \<longleftrightarrow>
            mx \<le> h \<and> (prev = JNull \<or> py_le prev mx = Inr True)"
  proof (cases "mx \<le> h")
    case True
    show ?thesis
    proof (cases "prev = JNull \<or> py_le prev mx = Inr True")
      case True
      with \<open>mx \<le> h\<close> show ?thesis
        by (simp add: fired_def s main_alerts_above send_pushover_alert_eq sent_append
            pushover_form_def)
    next
      case False
      with assms(2) have "py_le prev mx = Inr False"
        by (cases prev) auto
      with False \<open>mx \<le> h\<close> show ?thesis
        by (simp add: fired_def s main_alerts_still_above)
    qed
  next
    case False
    then have lt: "h < mx" by simp
    show ?thesis
    proof (cases "py_gt prev mx")
      case (Inl e)
      with lt show ?thesis by (simp add: fired_def s main_alerts_ok_raises)
    next
      case (Inr b)
      with lt show ?thesis
        by (cases b)
          (simp_all add: fired_def s main_alerts_ok main_alerts_still_ok
            send_pushover_alert_eq sent_append pushover_form_def)
    qed
  qed
  moreover have "py_gt prev mx = Inr True \<Longrightarrow> py_le prev mx \<noteq> Inr True \<and> prev \<noteq> JNull"
    using py_gt_not_le [of prev mx] by auto
  ultimately show ?thesis by blast
qed

theorem rising_edge_alert_iff_witness:
  "reaches_alerts (example_world (Some 60) 65 (Some (File True True (example_text 55))) Delivered)
          65 (example_state 55) (JInt 55) 60 \<and>
   (JInt 55 = JNull \<or> numeric (JInt 55)) \<and>
   fired ''Rel. humidity above threshold''
     (trace (main (example_world (Some 60) 65
                     (Some (File True True (example_text 55))) Delivered))) \<and>
   reaches_alerts (example_world (Some 60) 68 (Some (File True True (example_text 70))) Delivered)
          68 (example_state 70) (JInt 70) 60 \<and>
   (60::int) \<le> 68 \<and> py_gt (JInt 70) 60 = Inr True \<and>
   \<not> fired ''Rel. humidity above threshold''
     (trace (main (example_world (Some 60) 68
                     (Some (File True True (example_text 70))) Delivered)))"
proof -
  have a: "reaches_alerts
             (example_world (Some 60) 65 (Some (File True True (example_text 55))) Delivered)
             65 (example_state 55) (JInt 55) 60"
    by (simp add: example_reaches_alerts)
  have b: "reaches_alerts
             (example_world (Some 60) 68 (Some (File True True (example_text 70))) Delivered)
             68 (example_state 70) (JInt 70) 60"
    by (simp add: example_reaches_alerts)
  have n: "JInt 55 = JNull \<or> numeric (JInt 55)" "JInt 70 = JNull \<or> numeric (JInt 70)"
    by simp_all
  show ?thesis
    using rising_edge_alert_iff [OF a n(1)] rising_edge_alert_iff [OF b n(2)] a b
    by simp
qed

section \<open>The alert for a reading back under the threshold\<close>

text \<open>
  C2. With no previous reading and a current humidity under the threshold no alert should
  fire and nothing should fail. The run does something else: the second operand of the
  test of lines 136 and 137 compares \<^verbatim>\<open>None\<close> with the threshold, which raises
  \<^verbatim>\<open>TypeError\<close>; the run ends there, after loading the state and before any alert or
  write.
\<close>

theorem absent_previous_below_threshold_raises:
  assumes "reaches_alerts w h st JNull mx" and "h < mx"
  shows "main w = \<lparr>status = Crash TypeError, disk_after = disk w, trace = [EvConnect, EvLoadState]\<rparr>"
  using assms by (simp add: main_at_alerts main_alerts_ok_raises)

text \<open>The first run in a fresh directory, threshold 60, reading 50.\<close>

theorem absent_previous_below_threshold_raises_witness:
  "reaches_alerts (example_world (Some 60) 50 None Delivered) 50 (JObj []) JNull 60 \<and>
   (50::int) < 60 \<and>
   status (main (example_world (Some 60) 50 None Delivered)) = Crash TypeError \<and>
   exit_code (status (main (example_world (Some 60) 50 None Delivered))) = 1 \<and>
   sent (trace (main (example_world (Some 60) 50 None Delivered))) = [] \<and>
   files (disk_after (main (example_world (Some 60) 50 None Delivered))) STATE_FILE = None"
proof -
  have a: "reaches_alerts (example_world (Some 60) 50 None Delivered) 50 (JObj []) JNull 60"
    by (rule example_reaches_alerts(1))
  have b: "(50::int) < 60" by simp
  show ?thesis
    using absent_previous_below_threshold_raises [OF a b] a
    by (simp add: example_world_def example_disk_def)
qed

text \<open>
  C6. In a run that reaches the alert tests with a current humidity under the threshold
  and a previous reading that is a number above the threshold, exactly one form is
  posted: the one titled "Rel. humidity OK", whose message carries the current humidity.
\<close>

theorem recovery_alert_exactly:
  assumes "reaches_alerts w h st prev mx" and "h < mx" and "py_gt prev mx = Inr True"
  shows "sent (trace (main w)) =
           [\<lparr>token = environ w ''PUSHOVER_APP_TOKEN'', user = environ w ''PUSHOVER_USER_TOKEN'',
             title = ''Rel. humidity OK'',
             message = ''Humidity returned to OK value ('' @ str_int h @ ''%)''\<rparr>]"
  using assms
  by (simp add: main_sent_at_alerts main_alerts_ok send_pushover_alert_eq sent_append
      pushover_form_def)

text \<open>Threshold 60, previous reading 65, current reading 55.\<close>

theorem recovery_alert_exactly_witness:
  "reaches_alerts (example_world (Some 60) 55 (Some (File True True (example_text 65))) Delivered)
          55 (example_state 65) (JInt 65) 60 \<and>
   (55::int) < 60 \<and> py_gt (JInt 65) 60 = Inr True \<and>
   sent (trace (main (example_world (Some 60) 55
                        (Some (File True True (example_text 65))) Delivered))) =
     [\<lparr>token = Some ''app'', user = Some ''usr'', title = ''Rel. humidity OK'',
       message = ''Humidity returned to OK value (55%)''\<rparr>]"
proof -
  have a: "reaches_alerts
             (example_world (Some 60) 55 (Some (File True True (example_text 65))) Delivered)
             55 (example_state 65) (JInt 65) 60"
    by (simp add: example_reaches_alerts)
  have b: "(55::int) < 60" by simp
  have c: "py_gt (JInt 65) 60 = Inr True" by simp
  show ?thesis
    using recovery_alert_exactly [OF a b c] a
    by (simp add: example_world_def example_environ_def str_int_def)
qed

section \<open>One alert at most\<close>

text \<open>
  C3, as amended. No run fires both alerts: every run posts at most one form, since the
  first alert needs a reading at or above the threshold and the second a reading under
  the same threshold.
\<close>

theorem at_most_one_alert_per_run: "length (sent (trace (main w))) \<le> 1"
  using main_sent_cases [of w] by auto

text \<open>C3 as stated asks for a reading, a previous reading and a threshold for which the
  two tests of lines 128 to 139 fire both alerts. There is none.\<close>

theorem both_alerts_counterexample:
  "\<not> (\<exists>w h prev mx.
         fired ''Rel. humidity above threshold'' (snd (main_alerts w h prev (Some mx) [])) \<and>
         fired ''Rel. humidity OK'' (snd (main_alerts w h prev (Some mx) [])))"
proof
  assume "\<exists>w h prev mx.
         fired ''Rel. humidity above threshold'' (snd (main_alerts w h prev (Some mx) [])) \<and>
         fired ''Rel. humidity OK'' (snd (main_alerts w h prev (Some mx) []))"
  then obtain w h prev mx where
    a: "fired ''Rel. humidity above threshold'' (snd (main_alerts w h prev (Some mx) []))" and
    b: "fired ''Rel. humidity OK'' (snd (main_alerts w h prev (Some mx) []))"
    by blast
  from main_alerts_sent_cases [of w h prev "Some mx"] show False
  proof (elim disjE exE)
    assume "sent (snd (main_alerts w h prev (Some mx) [])) = []"
    with a show False by (simp add: fired_def)
  next
    fix f assume "sent (snd (main_alerts w h prev (Some mx) [])) = [f]"
    with a b have "title f = ''Rel. humidity above threshold''" "title f = ''Rel. humidity OK''"
      by (simp_all add: fired_def)
    then show False by simp
  qed
qed

section \<open>Notification failures and the state file\<close>

text \<open>
  C4. In every run in which a post to the endpoint fails, the process exits with status
  1, the directory of the state file is what it was at the start, and the failed post is
  the last thing the run did: no further alert, no write of the state file.
\<close>

theorem notification_failure_aborts:
  assumes "EvNotify f r \<in> set (trace (main w))" and "r \<noteq> Delivered"
  shows "status (main w) = Exit 1 \<and> exit_code (status (main w)) \<noteq> 0 \<and>
         disk_after (main w) = disk w \<and>
         trace (main w) = [EvConnect, EvLoadState, EvNotify f r]"
proof -
  have p: "EvNotify f r \<notin> set (trace (main_persist w st h [EvConnect, EvLoadState]))"
       "EvNotify f r \<notin> set (trace (main_persist w st h [EvConnect, EvLoadState, EvNotify g Delivered]))"
    for st h g
    using assms(2) by (auto simp: main_persist_def split: sum.splits prod.splits)
  from main_outcomes [of w] assms show ?thesis
    by (elim disjE exE conjE) (auto simp: p)
qed

text \<open>Threshold 60, no state file, reading 65, and an endpoint that answers with an
  error status.\<close>

theorem notification_failure_aborts_witness:
  "EvNotify (pushover_form (example_world (Some 60) 65 None HTTPError)
               ''Rel. humidity above threshold'' ''Humidity is: 65%'') HTTPError
     \<in> set (trace (main (example_world (Some 60) 65 None HTTPError))) \<and>
   HTTPError \<noteq> Delivered \<and>
   status (main (example_world (Some 60) 65 None HTTPError)) = Exit 1 \<and>
   files (disk_after (main (example_world (Some 60) 65 None HTTPError))) STATE_FILE = None"
proof -
  have a: "EvNotify (pushover_form (example_world (Some 60) 65 None HTTPError)
               ''Rel. humidity above threshold'' ''Humidity is: 65%'') HTTPError
     \<in> set (trace (main (example_world (Some 60) 65 None HTTPError)))"
    by (simp add: example_main_above)
  have b: "HTTPError \<noteq> Delivered" by simp
  have d: "disk (example_world (Some 60) 65 None HTTPError) = example_disk None"
    by (simp add: example_world_def)
  show ?thesis
    using notification_failure_aborts [OF a b] a
    by (simp add: d example_disk_def)
qed

text \<open>
  C5. Every run that ends with status 0 ends by saving a dict whose
  \<^verbatim>\<open>last_humidity\<close> is the humidity the device reported in that run, and the state
  file then holds the text of that dict, whether or not an alert fired. A run that ends
  otherwise leaves the directory of the state file as it found it, unless it is the write
  of the state file itself that failed: the run then ends with \<^verbatim>\<open>OSError\<close> and the
  file holds only a part of the text, possibly none of it.
\<close>

theorem successful_run_records_reading:
  "(status (main w) = Exit 0 \<longrightarrow>
      (\<exists>h st f. device_connect w = Inr \<lparr>humidity = h\<rparr> \<and>
         last (trace (main w)) = EvSaveState st \<and>
         py_get st ''last_humidity'' = Inr (JInt h) \<and>
         files (disk_after (main w)) STATE_FILE = Some f \<and>
         content f = json_dumps w st)) \<and>
   (status (main w) \<noteq> Exit 0 \<longrightarrow>
      disk_after (main w) = disk w \<or>
      (\<exists>st f n. status (main w) = Crash OSError \<and>
         last (trace (main w)) = EvSaveState st \<and>
         files (disk_after (main w)) STATE_FILE = Some f \<and>
         content f = take n (json_dumps w st) \<and> n < length (json_dumps w st)))"
proof -
  have p: ?thesis
    if r: "reaches_alerts w h st prev mx" and m: "main w = main_persist w st h tr"
    for h st prev mx tr
  proof -
    from r have g: "py_get st ''last_humidity'' = Inr prev"
      and d: "device_connect w = Inr \<lparr>humidity = h\<rparr>"
      by (simp_all add: reaches_alerts_def)
    from main_persist_end [OF g, of w h tr] obtain st' where
      l: "last (trace (main w)) = EvSaveState st'" and
      k: "py_get st' ''last_humidity'' = Inr (JInt h)" and
      c: "(status (main w) = Exit 0 \<and>
             (\<exists>f. files (disk_after (main w)) STATE_FILE = Some f \<and>
                  content f = json_dumps w st')) \<or>
          (status (main w) = Crash OSError \<and>
             (disk_after (main w) = disk w \<or>
              (\<exists>f n. files (disk_after (main w)) STATE_FILE = Some f \<and>
                     content f = take n (json_dumps w st') \<and>
                     n < length (json_dumps w st'))))"
      unfolding m by blast
    from c show ?thesis
    proof
      assume "status (main w) = Exit 0 \<and>
             (\<exists>f. files (disk_after (main w)) STATE_FILE = Some f \<and>
                  content f = json_dumps w st')"
      with d l k show ?thesis by auto
    next
      assume a: "status (main w) = Crash OSError \<and>
             (disk_after (main w) = disk w \<or>
              (\<exists>f n. files (disk_after (main w)) STATE_FILE = Some f \<and>
                     content f = take n (json_dumps w st') \<and>
                     n < length (json_dumps w st')))"
      then have "status (main w) \<noteq> Exit 0" by simp
      moreover from a l have "disk_after (main w) = disk w \<or>
        (\<exists>st f n. status (main w) = Crash OSError \<and>
           last (trace (main w)) = EvSaveState st \<and>
           files (disk_after (main w)) STATE_FILE = Some f \<and>
           content f = take n (json_dumps w st) \<and> n < length (json_dumps w st))"
        by blast
      ultimately show ?thesis by blast
    qed
  qed
  from main_outcomes [of w] show ?thesis
  proof (elim disjE exE conjE)
    fix h st prev mx
    assume "reaches_alerts w h st prev mx" "main w = main_persist w st h [EvConnect, EvLoadState]"
    then show ?thesis by (rule p)
  next
    fix h st prev mx f
    assume "reaches_alerts w h st prev mx"
      "main w = main_persist w st h [EvConnect, EvLoadState, EvNotify f Delivered]"
    then show ?thesis by (rule p)
  qed simp_all
qed

text \<open>Threshold 60, no state file, reading 65: with an endpoint that accepts; with one
  that times out; and with an endpoint that accepts and a device that stores nothing.\<close>

theorem successful_run_records_reading_witness:
  "status (main (example_world (Some 60) 65 None Delivered)) = Exit 0 \<and>
   (\<exists>h st f. device_connect (example_world (Some 60) 65 None Delivered) = Inr \<lparr>humidity = h\<rparr> \<and>
           last (trace (main (example_world (Some 60) 65 None Delivered))) = EvSaveState st \<and>
           py_get st ''last_humidity'' = Inr (JInt h) \<and>
           files (disk_after (main (example_world (Some 60) 65 None Delivered))) STATE_FILE = Some f \<and>
           content f = json_dumps (example_world (Some 60) 65 None Delivered) st) \<and>
   status (main (example_world (Some 60) 65 None Timeout)) \<noteq> Exit 0 \<and>
   disk_after (main (example_world (Some 60) 65 None Timeout)) =
     disk (example_world (Some 60) 65 None Timeout) \<and>
   status (main example_full_world) = Crash OSError \<and>
   files (disk example_full_world) STATE_FILE = None \<and>
   files (disk_after (main example_full_world)) STATE_FILE = Some (File True True [])"
proof -
  have a: "status (main (example_world (Some 60) 65 None Delivered)) = Exit 0"
    unfolding example_main_above
    by (simp add: main_persist_def save_state_def write_file_def example_world_def
        example_disk_def)
  have b: "status (main (example_world (Some 60) 65 None Timeout)) \<noteq> Exit 0"
    by (simp add: example_main_above)
  have d: "disk (example_world (Some 60) 65 None Timeout) = example_disk None"
    by (simp add: example_world_def)
  have t: "disk_after (main (example_world (Some 60) 65 None Timeout)) =
     disk (example_world (Some 60) 65 None Timeout)"
    by (simp add: example_main_above d)
  have r: "reaches_alerts example_full_world 65 (JObj []) JNull 60"
    by (simp add: reaches_alerts_def example_full_world_def example_world_def example_disk_def
        main_config_def not_set_def example_environ_def load_state_def)
  have p: "post example_full_world f = Delivered" for f
    by (simp add: example_full_world_def example_world_def)
  have m: "main example_full_world =
    main_persist example_full_world (JObj []) 65
      [EvConnect, EvLoadState,
       EvNotify (pushover_form example_full_world ''Rel. humidity above threshold''
                   ''Humidity is: 65%'') Delivered]"
    by (simp add: main_at_alerts [OF r] main_alerts_above send_pushover_alert_eq p str_int_def)
  have c: "status (main example_full_world) = Crash OSError"
    "files (disk example_full_world) STATE_FILE = None"
    "files (disk_after (main example_full_world)) STATE_FILE = Some (File True True [])"
    unfolding m
    by (simp_all add: main_persist_def save_state_def write_file_def example_full_world_def
        example_world_def example_disk_def example_dumps_def example_text_def)
  then have c': "status (main example_full_world) \<noteq> Exit 0" by simp
  show ?thesis
    using successful_run_records_reading [of "example_world (Some 60) 65 None Delivered"]
      successful_run_records_reading [of "example_world (Some 60) 65 None Timeout"]
      successful_run_records_reading [of example_full_world] a b t c c'
    by blast
qed

section \<open>The state file\<close>

text \<open>
  C7. \<^verbatim>\<open>load_state\<close> returns the empty dict when the state file does not exist and
  the decoded content when the file exists, can be read and holds a JSON document. A file
  that cannot be read and a content that is no JSON document raise an exception; the
  empty dict is returned only for a missing file or for a file whose document is the
  empty dict. In \<^verbatim>\<open>main\<close> the exception is fatal: the run ends with it, status 1, and
  nothing is written.
\<close>

theorem load_state_cases:
  "(files fs STATE_FILE = None \<longrightarrow> load_state loads fs = Inr (JObj [])) \<and>
   (\<forall>f v. files fs STATE_FILE = Some f \<and> readable f \<and> loads (content f) = Some v \<longrightarrow>
      load_state loads fs = Inr v) \<and>
   (\<forall>f. files fs STATE_FILE = Some f \<and> \<not> readable f \<longrightarrow> load_state loads fs = Inl OSError) \<and>
   (\<forall>f. files fs STATE_FILE = Some f \<and> readable f \<and> loads (content f) = None \<longrightarrow>
      load_state loads fs = Inl ValueError) \<and>
   (load_state loads fs = Inr (JObj []) \<longrightarrow>
      files fs STATE_FILE = None \<or>
      (\<exists>f. files fs STATE_FILE = Some f \<and> readable f \<and> loads (content f) = Some (JObj []))) \<and>
   (\<forall>w dev e. main_config w = None \<and> device_connect w = Inr dev \<and>
      load_state (json_loads w) (disk w) = Inl e \<longrightarrow>
      status (main w) = Crash e \<and> exit_code (status (main w)) = 1 \<and>
      disk_after (main w) = disk w \<and> trace (main w) = [EvConnect, EvLoadState])"
proof (intro conjI allI impI)
  fix w dev e
  assume "main_config w = None \<and> device_connect w = Inr dev \<and>
      load_state (json_loads w) (disk w) = Inl e"
  then have m: "main w = \<lparr>status = Crash e, disk_after = disk w, trace = [EvConnect, EvLoadState]\<rparr>"
    by (simp add: main_load_fails)
  show "status (main w) = Crash e" "exit_code (status (main w)) = 1"
    "disk_after (main w) = disk w" "trace (main w) = [EvConnect, EvLoadState]"
    by (simp_all add: m)
qed (auto simp: load_state_def split: option.splits if_splits)

text \<open>No state file; a state file with reading 65; the same file without read
  permission; a file whose content is no JSON document, and the run that finds it.\<close>

theorem load_state_cases_witness:
  "files (example_disk None) STATE_FILE = None \<and>
   load_state example_loads (example_disk None) = Inr (JObj []) \<and>
   load_state example_loads (example_disk (Some (File True True (example_text 65)))) =
     Inr (example_state 65) \<and>
   load_state example_loads (example_disk (Some (File False True (example_text 65)))) =
     Inl OSError \<and>
   load_state example_loads (example_disk (Some (File True True ''last_humidity: 65''))) =
     Inl ValueError \<and>
   status (main (example_world (Some 60) 65 (Some (File True True ''last_humidity: 65'')) Delivered))
     = Crash ValueError \<and>
   disk_after (main (example_world (Some 60) 65 (Some (File True True ''last_humidity: 65'')) Delivered))
     = example_disk (Some (File True True ''last_humidity: 65''))"
proof -
  have l: "example_loads (example_text 65) = Some (example_state 65)"
    "example_loads ''last_humidity: 65'' = None"
    by (simp_all add: example_loads_def example_text_def str_int_def)
  have f: "files (example_disk g) STATE_FILE = g" for g
    by (simp add: example_disk_def)
  have w: "device_connect (example_world (Some 60) 65 g Delivered) = Inr \<lparr>humidity = 65\<rparr>"
    "json_loads (example_world (Some 60) 65 g Delivered) = example_loads"
    "disk (example_world (Some 60) 65 g Delivered) = example_disk g" for g
    by (simp_all add: example_world_def)
  note t = load_state_cases [of "example_disk None" example_loads]
    load_state_cases [of "example_disk (Some (File True True (example_text 65)))" example_loads]
    load_state_cases [of "example_disk (Some (File False True (example_text 65)))" example_loads]
    load_state_cases [of "example_disk (Some (File True True ''last_humidity: 65''))" example_loads]
  have a: "load_state example_loads (example_disk None) = Inr (JObj [])"
    using t(1) by (simp add: f)
  have b: "load_state example_loads (example_disk (Some (File True True (example_text 65)))) =
     Inr (example_state 65)"
    using t(2) by (simp add: f l)
  have c: "load_state example_loads (example_disk (Some (File False True (example_text 65)))) =
     Inl OSError"
    using t(3) by (simp add: f)
  have d: "load_state example_loads (example_disk (Some (File True True ''last_humidity: 65''))) =
     Inl ValueError"
    using t(4) by (simp add: f l)
  have "main_config (example_world (Some 60) 65 (Some (File True True ''last_humidity: 65'')) Delivered) = None \<and>
        device_connect (example_world (Some 60) 65 (Some (File True True ''last_humidity: 65'')) Delivered) = Inr \<lparr>humidity = 65\<rparr> \<and>
        load_state (json_loads (example_world (Some 60) 65 (Some (File True True ''last_humidity: 65'')) Delivered))
          (disk (example_world (Some 60) 65 (Some (File True True ''last_humidity: 65'')) Delivered)) = Inl ValueError"
    by (simp add: example_config w d)
  with t(1) have e: "status (main (example_world (Some 60) 65 (Some (File True True ''last_humidity: 65'')) Delivered))
     = Crash ValueError \<and>
   disk_after (main (example_world (Some 60) 65 (Some (File True True ''last_humidity: 65'')) Delivered))
     = example_disk (Some (File True True ''last_humidity: 65''))"
    by (metis w(3))
  from a b c d e show ?thesis by (simp add: f)
qed

text \<open>
  C8. When \<^verbatim>\<open>save_state\<close> succeeds on a dict that the \<^verbatim>\<open>json\<close> module decodes
  back from its own encoding, and the state file is readable, \<^verbatim>\<open>load_state\<close> then
  returns that dict; the file holds the encoding of the dict and nothing of what it held
  before.
\<close>

theorem save_state_then_load_state:
  assumes "save_state dumps r fs = (Inr (), fs')"
    and "files fs STATE_FILE = None \<or> (\<exists>f. files fs STATE_FILE = Some f \<and> readable f)"
    and "loads (dumps r) = Some r"
  shows "load_state loads fs' = Inr r \<and>
         (\<exists>f. files fs' STATE_FILE = Some f \<and> content f = dumps r)"
  using assms
  by (auto simp: save_state_def write_file_def load_state_def split: option.splits if_splits)

text \<open>Saving reading 65 over a state file that held reading 55.\<close>

theorem save_state_then_load_state_witness:
  "save_state example_dumps (example_state 65)
      (example_disk (Some (File True True (example_text 55)))) =
     (Inr (), example_disk (Some (File True True (example_text 65)))) \<and>
   (\<exists>f. files (example_disk (Some (File True True (example_text 55)))) STATE_FILE = Some f \<and>
        readable f) \<and>
   example_loads (example_dumps (example_state 65)) = Some (example_state 65) \<and>
   load_state example_loads (example_disk (Some (File True True (example_text 65)))) =
     Inr (example_state 65)"
proof -
  have a: "save_state example_dumps (example_state 65)
      (example_disk (Some (File True True (example_text 55)))) =
     (Inr (), example_disk (Some (File True True (example_text 65))))"
    by (simp add: save_state_def write_file_def example_disk_def example_dumps_def
        example_state_def fun_eq_iff)
  have b': "\<exists>f. files (example_disk (Some (File True True (example_text 55)))) STATE_FILE = Some f \<and>
        readable f"
    by (simp add: example_disk_def)
  then have b: "files (example_disk (Some (File True True (example_text 55)))) STATE_FILE = None \<or>
    (\<exists>f. files (example_disk (Some (File True True (example_text 55)))) STATE_FILE = Some f \<and>
        readable f)"
    by (rule disjI2)
  have c: "example_loads (example_dumps (example_state 65)) = Some (example_state 65)"
    by (simp add: example_loads_def example_dumps_def example_state_def example_text_def
        str_int_def)
  show ?thesis
    using save_state_then_load_state [where loads = example_loads, OF a b c] a b' c
    by blast
qed

section \<open>Configuration\<close>

text \<open>
  C9. When the threshold was not given on the command line, or one of the six required
  environment variables is unset, the run exits with status 1 and has done nothing: no
  connection to the device, no access to the state file, no post.
\<close>

theorem missing_configuration_exits:
  assumes "max_humidity w = None \<or> (\<exists>k \<in> set required_variables. environ w k = None)"
  shows "main w = \<lparr>status = Exit 1, disk_after = disk w, trace = []\<rparr>"
proof (rule main_config_fails)
  have "not_set w k" if "environ w k = None" for k
    using that by (simp add: not_set_def)
  with assms show "max_humidity w = None \<or> (\<exists>k \<in> set required_variables. not_set w k)"
    by blast
qed

text \<open>A run without a threshold, and a run with threshold 60 and \<^verbatim>\<open>DYSON_HOST\<close>
  unset.\<close>

theorem missing_configuration_exits_witness:
  "max_humidity (example_world None 65 None Delivered) = None \<and>
   status (main (example_world None 65 None Delivered)) = Exit 1 \<and>
   trace (main (example_world None 65 None Delivered)) = [] \<and>
   ''DYSON_HOST'' \<in> set required_variables \<and>
   environ ((example_world (Some 60) 65 None Delivered)
              \<lparr>environ := example_environ(''DYSON_HOST'' := None)\<rparr>) ''DYSON_HOST'' = None \<and>
   status (main ((example_world (Some 60) 65 None Delivered)
              \<lparr>environ := example_environ(''DYSON_HOST'' := None)\<rparr>)) = Exit 1 \<and>
   trace (main ((example_world (Some 60) 65 None Delivered)
              \<lparr>environ := example_environ(''DYSON_HOST'' := None)\<rparr>)) = []"
proof -
  have a: "max_humidity (example_world None 65 None Delivered) = None"
    by (simp add: example_world_def)
  have b: "''DYSON_HOST'' \<in> set required_variables"
    by (simp add: required_variables_def)
  have c: "environ ((example_world (Some 60) 65 None Delivered)
              \<lparr>environ := example_environ(''DYSON_HOST'' := None)\<rparr>) ''DYSON_HOST'' = None"
    by simp
  from a have a': "max_humidity (example_world None 65 None Delivered) = None \<or>
     (\<exists>k \<in> set required_variables. environ (example_world None 65 None Delivered) k = None)"
    by simp
  from b c have c': "max_humidity ((example_world (Some 60) 65 None Delivered)
              \<lparr>environ := example_environ(''DYSON_HOST'' := None)\<rparr>) = None \<or>
     (\<exists>k \<in> set required_variables. environ ((example_world (Some 60) 65 None Delivered)
              \<lparr>environ := example_environ(''DYSON_HOST'' := None)\<rparr>) k = None)"
    by blast
  show ?thesis
    using missing_configuration_exits [OF a'] missing_configuration_exits [OF c'] a b c
    by simp
qed

text \<open>
  C10. When one of the six required environment variables is set to the empty string,
  the run exits with status 1 and has done nothing, and it is the very run that results
  when that variable is unset.
\<close>

theorem empty_variable_exits:
  assumes "k \<in> set required_variables" and "environ w k = Some []"
  shows "main w = \<lparr>status = Exit 1, disk_after = disk w, trace = []\<rparr> \<and>
         main w = main (w\<lparr>environ := (environ w)(k := None)\<rparr>)"
proof -
  from assms(2) have "not_set w k"
    by (simp add: not_set_def)
  with assms(1) have "\<exists>k \<in> set required_variables. not_set w k"
    by blast
  then have a: "main w = \<lparr>status = Exit 1, disk_after = disk w, trace = []\<rparr>"
    by (simp add: main_config_fails)
  have "not_set (w\<lparr>environ := (environ w)(k := None)\<rparr>) k"
    by (simp add: not_set_def)
  with assms(1) have
    "\<exists>k' \<in> set required_variables. not_set (w\<lparr>environ := (environ w)(k := None)\<rparr>) k'"
    by blast
  then have "main (w\<lparr>environ := (environ w)(k := None)\<rparr>) =
      \<lparr>status = Exit 1, disk_after = disk w, trace = []\<rparr>"
    using main_config_fails [of "w\<lparr>environ := (environ w)(k := None)\<rparr>"] by simp
  with a show ?thesis by simp
qed

text \<open>A run with \<^verbatim>\<open>PUSHOVER_USER_TOKEN\<close> set to the empty string.\<close>

theorem empty_variable_exits_witness:
  "''PUSHOVER_USER_TOKEN'' \<in> set required_variables \<and>
   environ ((example_world (Some 60) 65 None Delivered)
              \<lparr>environ := example_environ(''PUSHOVER_USER_TOKEN'' \<mapsto> [])\<rparr>)
     ''PUSHOVER_USER_TOKEN'' = Some [] \<and>
   status (main ((example_world (Some 60) 65 None Delivered)
              \<lparr>environ := example_environ(''PUSHOVER_USER_TOKEN'' \<mapsto> [])\<rparr>)) = Exit 1 \<and>
   trace (main ((example_world (Some 60) 65 None Delivered)
              \<lparr>environ := example_environ(''PUSHOVER_USER_TOKEN'' \<mapsto> [])\<rparr>)) = []"
proof -
  have a: "''PUSHOVER_USER_TOKEN'' \<in> set required_variables"
    by (simp add: required_variables_def)
  have b: "environ ((example_world (Some 60) 65 None Delivered)
              \<lparr>environ := example_environ(''PUSHOVER_USER_TOKEN'' \<mapsto> [])\<rparr>)
     ''PUSHOVER_USER_TOKEN'' = Some []"
    by simp
  show ?thesis
    using empty_variable_exits [OF a b] a b by simp
qed

end
